theory Spec2Isabelle
  imports Complex_Main
begin

section \<open>The plotting script \<open>basic-pareto.py\<close>\<close>

text \<open>
  The script is one module: two small functions (\<open>data_loc\<close>, \<open>expected\<close>), a few
  constants, and a straight line of calls into matplotlib and into the helper modules
  \<open>pdfplot\<close> and \<open>kldplot\<close>. Python's unbounded integers are \<open>int\<close>, its strings are
  \<open>string\<close>, its floats are idealised as \<open>real\<close>.
\<close>

subsection \<open>Python's \<open>str\<close> on integers\<close>

text \<open>
  \<open>str(i)\<close> is the decimal representation of \<open>i\<close>: the digits of \<open>|i|\<close>, most
  significant first, without leading zeros, after a minus sign when \<open>i < 0\<close>.
\<close>

definition digits :: string where
  "digits = ''0123456789''"

definition digit_char :: "nat \<Rightarrow> char" where
  "digit_char d = digits ! d"

function str_nat :: "nat \<Rightarrow> string" where
  "str_nat n = (if n < 10 then [digit_char n] else str_nat (n div 10) @ [digit_char (n mod 10)])"
  by pat_completeness auto
termination
  by (relation "measure (\<lambda>n. n)") auto

declare str_nat.simps [simp del]

definition str :: "int \<Rightarrow> string" where
  "str i = (if i < 0 then CHR ''-'' # str_nat (nat (- i)) else str_nat (nat i))"

subsection \<open>Python's \<open>ord\<close> and \<open>chr\<close>\<close>

text \<open>
  \<open>char\<close> has 256 values, so \<open>chr\<close> agrees with Python's on code points below 256 only;
  the script applies it to \<open>ord('a') + i\<close> for the loop indices \<open>i = 0, 1, 2\<close>.
\<close>

definition ord :: "char \<Rightarrow> int" where
  "ord c = of_char c"

definition chr :: "int \<Rightarrow> char" where
  "chr n = char_of n"

definition len :: "'a list \<Rightarrow> int" where
  "len xs = int (length xs)"

subsection \<open>Module constants and the two functions\<close>

definition name :: string where
  "name = ''basic-pareto''"

definition dir :: string where
  "dir = ''../../../flip-bench/experiments/basic-pareto/''"

definition data_loc :: "int \<Rightarrow> string" where
  "data_loc i = dir @ ''basic-pareto-pdf-'' @ str i @ ''.out''"

text \<open>
  Modelled from the spec: \<open>scipy.stats.pareto.pdf\<close>, the library function that
  \<open>expected\<close> calls, is not in the repository's source. The spec names it the standard
  Pareto density; with the default location 0 and scale 1 the shape \<open>b\<close> must be positive
  (otherwise the result is NaN), the support is \<open>x \<ge> 1\<close>, the density there is
  \<open>b * x**(-b-1)\<close>, and it is 0 outside the support. Floats are idealised as reals, so
  rounding is not modelled.
\<close>

datatype py_float = Nan | Flt real

definition pareto_pdf :: "real \<Rightarrow> real \<Rightarrow> py_float" where
  "pareto_pdf x b =
     (if b \<le> 0 then Nan
      else if 1 \<le> x then Flt (b * x powr (- b - 1))
      else Flt 0)"

text \<open>\<open>def expected(x, i = -1): return pareto.pdf(x, 1)\<close>\<close>

definition expected :: "real \<Rightarrow> int \<Rightarrow> py_float" where
  "expected x i = pareto_pdf x 1"

text \<open>The call \<open>expected(x)\<close>, with the default value of the second parameter.\<close>

definition expected_default :: "real \<Rightarrow> py_float" where
  "expected_default x = expected x (- 1)"

definition xmin :: int where
  "xmin = 0"

definition xmax :: int where
  "xmax = 10"

definition ymin :: int where
  "ymin = 0"

definition ymax :: int where
  "ymax = 1"

definition data_counts :: "int list" where
  "data_counts = [40, 60, 220]"

definition countmin :: int where
  "countmin = 40"

definition countmax :: int where
  "countmax = 500"

definition rearr_start :: int where
  "rearr_start = 50"

definition rearr_period :: int where
  "rearr_period = 100"

definition kld_max :: real where
  "kld_max = 0.25"

definition kld_data_loc :: string where
  "kld_data_loc = dir @ ''basic-pareto-kld.out''"

definition start :: int where
  "start = 10"

definition end' :: int where
  "end' = 500"

definition step :: int where
  "step = 10"

definition fps :: int where
  "fps = 4"

subsection \<open>The statements of the script as library calls\<close>

text \<open>
  Everything else the module does is a call into a library: an import, a matplotlib
  call, or a call of a helper of \<open>pdfplot\<close> or \<open>kldplot\<close>. A call carries the arguments
  the script passes, function objects included. The axes object returned by
  \<open>plt.subplot(r, c, k)\<close> is \<open>Axes r c k\<close>; the animation object returned by
  \<open>animated_pdfplot_errorbar\<close> is \<open>Animation Errorbar\<close>, the one returned by
  \<open>animated_pdfplot_bar\<close> is \<open>Animation Bar\<close>.
\<close>

datatype axes = Axes int int int

datatype plot_style = Errorbar | Bar

datatype animation = Animation plot_style

datatype call =
    Import string
  | Figure int int
  | Subplot int int int
  | Set_title axes string
  | Pdfplot_bar axes "real \<Rightarrow> int \<Rightarrow> py_float" string int int int int
  | Kldplot axes string real int int int int
  | Savefig string
  | Animated_pdfplot_errorbar "int \<Rightarrow> string" int int int "real \<Rightarrow> int \<Rightarrow> py_float" int int int int
  | Animated_pdfplot_bar "int \<Rightarrow> string" int int int "real \<Rightarrow> int \<Rightarrow> py_float" int int int int
  | Animation_save animation string string int

definition import_stmts :: "call list" where
  "import_stmts =
     [Import ''numpy'', Import ''scipy.stats'', Import ''matplotlib'',
      Import ''matplotlib.pyplot'', Import ''preprocessing'', Import ''pdfplot'',
      Import ''kldplot'']"

text \<open>
  \<open>annotation = "(" + chr(ord('a') + i) + ")" + " pdf at update count: " + str(data_count)\<close>
\<close>

definition annotation :: "int \<Rightarrow> int \<Rightarrow> string" where
  "annotation i data_count =
     ''('' @ [chr (ord CHR ''a'' + i)] @ '')'' @ '' pdf at update count: '' @ str data_count"

text \<open>
  The loop \<open>for data_count in data_counts\<close>, with the counter \<open>i\<close> that the script
  starts at 0 and increments at the end of each round.
\<close>

fun subplot_loop :: "int list \<Rightarrow> int \<Rightarrow> call list" where
  "subplot_loop [] i = []"
| "subplot_loop (data_count # rest) i =
     [Subplot 1 (len data_counts + 1) (i + 1),
      Set_title (Axes 1 (len data_counts + 1) (i + 1)) (annotation i data_count),
      Pdfplot_bar (Axes 1 (len data_counts + 1) (i + 1)) expected (data_loc data_count)
        xmin xmax ymin ymax]
     @ subplot_loop rest (i + 1)"

definition static_plots :: "call list" where
  "static_plots = Figure 20 5 # subplot_loop data_counts 0"

definition kld_plot :: "call list" where
  "kld_plot =
     [Subplot 1 (len data_counts + 1) (len data_counts + 1),
      Set_title (Axes 1 (len data_counts + 1) (len data_counts + 1)) ''(d) KL-divergence'',
      Kldplot (Axes 1 (len data_counts + 1) (len data_counts + 1)) kld_data_loc kld_max
        countmin countmax rearr_start rearr_period]"

definition save_plot :: "call list" where
  "save_plot = [Savefig (name @ ''.pdf''), Savefig (name @ ''.png'')]"

definition animated :: "call list" where
  "animated =
     [Animated_pdfplot_errorbar data_loc start end' step expected xmin xmax ymin ymax,
      Animation_save (Animation Errorbar) (name @ ''-errorbar.gif'') ''imagemagick'' fps,
      Animated_pdfplot_bar data_loc start end' step expected xmin xmax ymin ymax,
      Animation_save (Animation Bar) (name @ ''-histo.gif'') ''imagemagick'' fps]"

definition script :: "call list" where
  "script = import_stmts @ static_plots @ kld_plot @ save_plot @ animated"

subsection \<open>Running the script\<close>

text \<open>
  A Python module is a sequence of statements. For what a failing call does to a run,
  two kinds matter: a statement that makes a library call, and a \<open>try\<close> statement,
  whose handler takes over when a call of its body raises (a bare \<open>except\<close>; after the
  handler the run goes on behind the \<open>try\<close>). Whether a call raises depends on the
  libraries and on the files on disk; \<open>ok\<close> says which calls return normally. Executing
  gives the calls that returned, in order, and how the execution ended.
\<close>

datatype outcome = Completed | Raised call

datatype stmt = Call call | Try "stmt list" "stmt list"

fun exec :: "(call \<Rightarrow> bool) \<Rightarrow> stmt \<Rightarrow> call list \<times> outcome"
  and exec_block :: "(call \<Rightarrow> bool) \<Rightarrow> stmt list \<Rightarrow> call list \<times> outcome" where
  "exec ok (Call c) = (if ok c then ([c], Completed) else ([], Raised c))"
| "exec ok (Try body handler) =
     (case exec_block ok body of
        (done, Completed) \<Rightarrow> (done, Completed)
      | (done, Raised c) \<Rightarrow>
          (case exec_block ok handler of (done', out) \<Rightarrow> (done @ done', out)))"
| "exec_block ok [] = ([], Completed)"
| "exec_block ok (s # ss) =
     (case exec ok s of
        (done, Completed) \<Rightarrow>
          (case exec_block ok ss of (done', out) \<Rightarrow> (done @ done', out))
      | (done, Raised c) \<Rightarrow> (done, Raised c))"

text \<open>All calls that occur in a block, in program order, inside \<open>try\<close> statements too.\<close>

fun calls_of_stmt :: "stmt \<Rightarrow> call list"
  and calls_of :: "stmt list \<Rightarrow> call list" where
  "calls_of_stmt (Call c) = [c]"
| "calls_of_stmt (Try body handler) = calls_of body @ calls_of handler"
| "calls_of [] = []"
| "calls_of (s # ss) = calls_of_stmt s @ calls_of ss"

fun is_call_stmt :: "stmt \<Rightarrow> bool" where
  "is_call_stmt (Call c) = True"
| "is_call_stmt (Try body handler) = False"

definition handler_free :: "stmt list \<Rightarrow> bool" where
  "handler_free ss = list_all is_call_stmt ss"

text \<open>
  The module has no \<open>try\<close> statement: each of its library calls is a statement of its
  own, at the top level or in the body of the \<open>for\<close> loop.
\<close>

definition program :: "stmt list" where
  "program = map Call script"

subsection \<open>Files written\<close>

text \<open>
  Importing a module whose source lies beside the script makes CPython 3 compile it and
  write the bytecode to \<open>__pycache__/<module>.<cache tag>.pyc\<close> in the script's
  directory, unless bytecode writing is switched off or the cached bytecode is current.
  The record holds what this depends on: \<open>sys.implementation.cache_tag\<close>,
  \<open>sys.dont_write_bytecode\<close>, and the modules whose cache is current.
\<close>

record interpreter =
  cache_tag :: string
  dont_write_bytecode :: bool
  cached :: "string list"

text \<open>
  Modelled from the spec: the modules that are helper modules of the repository (the
  script's imports at lines 5 to 7), not installed libraries. Their source is not shown.
\<close>

definition helper_modules :: "string list" where
  "helper_modules = [''preprocessing'', ''pdfplot'', ''kldplot'']"

definition bytecode_file :: "interpreter \<Rightarrow> string \<Rightarrow> string" where
  "bytecode_file py m = ''__pycache__/'' @ m @ ''.'' @ cache_tag py @ ''.pyc''"

fun caches :: "interpreter \<Rightarrow> call \<Rightarrow> string list" where
  "caches py (Import m) =
     (if m \<in> set helper_modules \<and> \<not> dont_write_bytecode py \<and> m \<notin> set (cached py)
      then [bytecode_file py m] else [])"
| "caches py _ = []"

text \<open>
  Modelled from the spec: the file a call saves. The helper modules and matplotlib are
  not in the repository's source; by the spec the plotting helpers read the snapshot and
  divergence files and draw, and output is written by the two \<open>savefig\<close> calls and the
  two animation \<open>save\<close> calls, each to the file it is given.
\<close>

fun saves :: "call \<Rightarrow> string list" where
  "saves (Savefig fname) = [fname]"
| "saves (Animation_save anim fname writer rate) = [fname]"
| "saves _ = []"

definition writes :: "interpreter \<Rightarrow> call \<Rightarrow> string list" where
  "writes py c = caches py c @ saves c"

definition files_written :: "interpreter \<Rightarrow> call list \<Rightarrow> string list" where
  "files_written py cs = concat (map (writes py) cs)"

definition files_saved :: "call list \<Rightarrow> string list" where
  "files_saved cs = concat (map saves cs)"

text \<open>An interpreter with the default settings and no bytecode cached yet.\<close>

definition cpython :: interpreter where
  "cpython = \<lparr>cache_tag = ''cpython-311'', dont_write_bytecode = False, cached = []\<rparr>"

subsection \<open>Projections of the call list\<close>


fun title_of :: "call \<Rightarrow> string list" where
  "title_of (Set_title ax t) = [t]"
| "title_of _ = []"

definition titles :: "call list \<Rightarrow> string list" where
  "titles cs = concat (map title_of cs)"

fun is_pdfplot_bar :: "call \<Rightarrow> bool" where
  "is_pdfplot_bar (Pdfplot_bar ax f loc x0 x1 y0 y1) = True"
| "is_pdfplot_bar _ = False"

fun is_subplot :: "call \<Rightarrow> bool" where
  "is_subplot (Subplot r c k) = True"
| "is_subplot _ = False"

fun is_kldplot :: "call \<Rightarrow> bool" where
  "is_kldplot (Kldplot ax loc m c0 c1 r0 rp) = True"
| "is_kldplot _ = False"

fun is_savefig :: "call \<Rightarrow> bool" where
  "is_savefig (Savefig fname) = True"
| "is_savefig _ = False"

fun is_animation_call :: "call \<Rightarrow> bool" where
  "is_animation_call (Animated_pdfplot_errorbar loc s e st f x0 x1 y0 y1) = True"
| "is_animation_call (Animated_pdfplot_bar loc s e st f x0 x1 y0 y1) = True"
| "is_animation_call (Animation_save anim fname writer rate) = True"
| "is_animation_call _ = False"


section \<open>Decimal representations\<close>

lemma digits_distinct: "distinct digits" "length digits = 10"
  by (simp_all add: digits_def)

lemma digit_char_inj: "a < 10 \<Longrightarrow> b < 10 \<Longrightarrow> digit_char a = digit_char b \<Longrightarrow> a = b"
  unfolding digit_char_def using digits_distinct by (simp add: nth_eq_iff_index_eq)

lemma digit_char_not_minus: "d < 10 \<Longrightarrow> digit_char d \<noteq> CHR ''-''"
proof -
  assume "d < 10"
  then have "digit_char d \<in> set digits"
    unfolding digit_char_def using digits_distinct(2) by simp
  moreover have "CHR ''-'' \<notin> set digits"
    by (simp add: digits_def)
  ultimately show ?thesis by auto
qed

lemma str_nat_nonempty: "str_nat n \<noteq> []"
  by (subst str_nat.simps) simp

lemma str_nat_no_minus: "CHR ''-'' \<notin> set (str_nat n)"
proof (induction n rule: str_nat.induct)
  case (1 n)
  show ?case
  proof (cases "n < 10")
    case True
    then show ?thesis using digit_char_not_minus [of n]
      by (subst str_nat.simps) auto
  next
    case False
    then show ?thesis using 1 digit_char_not_minus [of "n mod 10"]
      by (subst str_nat.simps) auto
  qed
qed

text \<open>Two naturals with the same digits are equal: compare the last digit and the rest.\<close>

lemma str_nat_inj: "str_nat m = str_nat n \<Longrightarrow> m = n"
proof (induction m arbitrary: n rule: str_nat.induct)
  case (1 m)
  show ?case
  proof (cases "m < 10")
    case m: True
    show ?thesis
    proof (cases "n < 10")
      case True
      with m 1(2) show ?thesis
        by (simp add: str_nat.simps [of m] str_nat.simps [of n] digit_char_inj)
    next
      case False
      with m 1(2) str_nat_nonempty [of "n div 10"] show ?thesis
        by (simp add: str_nat.simps [of m] str_nat.simps [of n])
    qed
  next
    case m: False
    show ?thesis
    proof (cases "n < 10")
      case True
      with m 1(2) str_nat_nonempty [of "m div 10"] show ?thesis
        by (simp add: str_nat.simps [of m] str_nat.simps [of n])
    next
      case False
      with m 1(2) have e: "str_nat (m div 10) = str_nat (n div 10)"
        and d: "digit_char (m mod 10) = digit_char (n mod 10)"
        by (simp_all add: str_nat.simps [of m] str_nat.simps [of n])
      from 1(1) [OF m e] have "m div 10 = n div 10" .
      moreover from d have "m mod 10 = n mod 10"
        by (simp add: digit_char_inj)
      ultimately show ?thesis
        by (metis div_mult_mod_eq)
    qed
  qed
qed

lemma str_sign: "a < 0 \<Longrightarrow> \<not> b < 0 \<Longrightarrow> str a \<noteq> str b"
proof -
  assume "a < 0" "\<not> b < 0"
  then have "CHR ''-'' \<in> set (str a)" "CHR ''-'' \<notin> set (str b)"
    using str_nat_no_minus by (simp_all add: str_def)
  then show "str a \<noteq> str b" by auto
qed

lemma str_inj: "str i = str j \<Longrightarrow> i = j"
proof -
  assume e: "str i = str j"
  show ?thesis
  proof (cases "i < 0")
    case i: True
    show ?thesis
    proof (cases "j < 0")
      case True
      with i e have "nat (- i) = nat (- j)"
        by (simp add: str_def str_nat_inj)
      with i True show ?thesis by simp
    next
      case False
      with i e str_sign [of i j] show ?thesis by simp
    qed
  next
    case i: False
    show ?thesis
    proof (cases "j < 0")
      case True
      with i e str_sign [of j i] show ?thesis by simp
    next
      case False
      with i e have "nat i = nat j"
        by (simp add: str_def str_nat_inj)
      with i False show ?thesis by simp
    qed
  qed
qed

lemma str_counts: "str 40 = ''40''" "str 60 = ''60''" "str 220 = ''220''"
  by (simp_all add: str_def str_nat.simps digit_char_def digits_def)

lemma letters:
  "chr (ord CHR ''a'' + 0) = CHR ''a''" "chr (ord CHR ''a'' + 1) = CHR ''b''"
  "chr (ord CHR ''a'' + 2) = CHR ''c''" "chr (ord CHR ''a'' + 3) = CHR ''d''"
  by (simp_all add: chr_def ord_def char_of_def)

section \<open>The two functions\<close>

text \<open>
  C1: for every integer index \<open>i\<close>, \<open>data_loc(i)\<close> is the fixed template
  \<open>"../../../flip-bench/experiments/basic-pareto/basic-pareto-pdf-" + str(i) + ".out"\<close>.
\<close>

theorem data_loc_template:
  "data_loc i =
     ''../../../flip-bench/experiments/basic-pareto/basic-pareto-pdf-'' @ str i @ ''.out''"
  by (simp add: data_loc_def dir_def)

text \<open>
  C8: \<open>data_loc\<close> is injective on integer indices: distinct indices never name the same
  snapshot file.
\<close>

theorem data_loc_injective: "i \<noteq> j \<Longrightarrow> data_loc i \<noteq> data_loc j"
  using str_inj [of i j] by (auto simp add: data_loc_def)

theorem data_loc_injective_witness: "data_loc 40 \<noteq> data_loc (- 40)"
  using data_loc_injective [of 40 "- 40"] by simp

text \<open>
  C2: for every non-negative \<open>x\<close>, \<open>expected(x)\<close> is the Pareto density with shape
  parameter 1: \<open>1/x\<^sup>2\<close> for \<open>x \<ge> 1\<close> and 0 for \<open>0 \<le> x < 1\<close>.
\<close>

theorem expected_is_pareto_density:
  "0 \<le> x \<Longrightarrow> expected x i = Flt (if 1 \<le> x then 1 / x ^ 2 else 0)"
  by (simp add: expected_def pareto_pdf_def powr_minus divide_inverse)

theorem expected_is_pareto_density_witness:
  "expected 2 (- 1) = Flt (1 / 4) \<and> expected (1 / 2) (- 1) = Flt 0"
  using expected_is_pareto_density [of 2 "- 1"] expected_is_pareto_density [of "1 / 2" "- 1"]
  by simp

text \<open>
  C5: \<open>expected\<close> is a function of its first argument only: any two second arguments give
  the same value, which is also the value of the one-argument call \<open>expected(x)\<close> (where
  the index takes its default, -1).
\<close>

theorem expected_ignores_index:
  "expected x i = expected x j \<and> expected x i = expected_default x"
  by (simp add: expected_def expected_default_def)

section \<open>The calls of the script\<close>

lemma subplot_loop_counts:
  "subplot_loop data_counts 0 =
     [Subplot 1 4 1, Set_title (Axes 1 4 1) (annotation 0 40),
      Pdfplot_bar (Axes 1 4 1) expected (data_loc 40) 0 10 0 1,
      Subplot 1 4 2, Set_title (Axes 1 4 2) (annotation 1 60),
      Pdfplot_bar (Axes 1 4 2) expected (data_loc 60) 0 10 0 1,
      Subplot 1 4 3, Set_title (Axes 1 4 3) (annotation 2 220),
      Pdfplot_bar (Axes 1 4 3) expected (data_loc 220) 0 10 0 1]"
  by (simp add: data_counts_def len_def xmin_def xmax_def ymin_def ymax_def)

lemma kld_plot_calls:
  "kld_plot =
     [Subplot 1 4 4, Set_title (Axes 1 4 4) ''(d) KL-divergence'',
      Kldplot (Axes 1 4 4) kld_data_loc 0.25 40 500 50 100]"
  by (simp add: kld_plot_def data_counts_def len_def kld_max_def countmin_def countmax_def
      rearr_start_def rearr_period_def)

lemma annotations:
  "annotation 0 40 = ''(a) pdf at update count: 40''"
  "annotation 1 60 = ''(b) pdf at update count: 60''"
  "annotation 2 220 = ''(c) pdf at update count: 220''"
  using letters by (simp_all add: annotation_def str_counts)

text \<open>
  C6: the figure has exactly three static density subplots, one per update count of
  \<open>[40, 60, 220]\<close>, in that order; the subplot for count \<open>c\<close> is a bar plot of the
  snapshot file \<open>data_loc(c)\<close> against the reference density \<open>expected\<close>, with the axis
  bounds \<open>xmin = 0\<close>, \<open>xmax = 10\<close>, \<open>ymin = 0\<close>, \<open>ymax = 1\<close>.
\<close>

theorem static_density_subplots:
  "filter is_pdfplot_bar script =
     [Pdfplot_bar (Axes 1 4 1) expected (data_loc 40) 0 10 0 1,
      Pdfplot_bar (Axes 1 4 2) expected (data_loc 60) 0 10 0 1,
      Pdfplot_bar (Axes 1 4 3) expected (data_loc 220) 0 10 0 1]"
  by (simp add: script_def import_stmts_def static_plots_def subplot_loop_counts
      kld_plot_calls save_plot_def animated_def)

text \<open>
  C7: the divergence series is read from the one path \<open>dir + "basic-pareto-kld.out"\<close>;
  the script passes it to exactly one \<open>kldplot\<close> call, which draws on the last of the
  four subplots.
\<close>

theorem divergence_plot:
  "kld_data_loc = ''../../../flip-bench/experiments/basic-pareto/basic-pareto-kld.out''
   \<and> filter is_kldplot script = [Kldplot (Axes 1 4 4) kld_data_loc 0.25 40 500 50 100]
   \<and> filter is_subplot script = [Subplot 1 4 1, Subplot 1 4 2, Subplot 1 4 3, Subplot 1 4 4]"
  by (simp add: kld_data_loc_def dir_def script_def import_stmts_def static_plots_def
      subplot_loop_counts kld_plot_calls save_plot_def animated_def)

text \<open>
  C9: the two animations are built from the same arguments (the path function
  \<open>data_loc\<close>, the counts from 10 to 500 in steps of 10, the reference density
  \<open>expected\<close>, the axis bounds 0, 10, 0, 1), and both are saved with the imagemagick
  writer at 4 frames per second; only the plot style (error bars or bars) and the file
  name differ.
\<close>

theorem animations_share_arguments:
  "filter is_animation_call script =
     [Animated_pdfplot_errorbar data_loc 10 500 10 expected 0 10 0 1,
      Animation_save (Animation Errorbar) ''basic-pareto-errorbar.gif'' ''imagemagick'' 4,
      Animated_pdfplot_bar data_loc 10 500 10 expected 0 10 0 1,
      Animation_save (Animation Bar) ''basic-pareto-histo.gif'' ''imagemagick'' 4]"
  by (simp add: script_def import_stmts_def static_plots_def subplot_loop_counts
      kld_plot_calls save_plot_def animated_def start_def end'_def step_def fps_def
      xmin_def xmax_def ymin_def ymax_def name_def)

text \<open>
  C10: the four subplot titles, in the order the script sets them, are
  \<open>"(a) pdf at update count: 40"\<close>, \<open>"(b) pdf at update count: 60"\<close>,
  \<open>"(c) pdf at update count: 220"\<close> and \<open>"(d) KL-divergence"\<close>. The first three come from
  the loop, with the letter \<open>chr(ord('a') + i)\<close> for the loop index \<open>i\<close>; the letter of
  the hard-coded fourth is the next one, \<open>chr(ord('a') + len(data_counts))\<close>.
\<close>

theorem titles_in_order:
  "titles script =
     [''(a) pdf at update count: 40'', ''(b) pdf at update count: 60'',
      ''(c) pdf at update count: 220'', ''(d) KL-divergence'']
   \<and> titles (subplot_loop data_counts 0) = [annotation 0 40, annotation 1 60, annotation 2 220]
   \<and> take 3 ''(d) KL-divergence'' = ''('' @ [chr (ord CHR ''a'' + len data_counts)] @ '')''"
proof -
  have a: "titles (subplot_loop data_counts 0) = [annotation 0 40, annotation 1 60, annotation 2 220]"
    by (simp add: subplot_loop_counts titles_def)
  have b: "titles script = titles (subplot_loop data_counts 0) @ [''(d) KL-divergence'']"
    by (simp add: titles_def script_def import_stmts_def static_plots_def kld_plot_calls
        save_plot_def animated_def)
  have c: "take 3 ''(d) KL-divergence'' = ''('' @ [chr (ord CHR ''a'' + len data_counts)] @ '')''"
    using letters(4) by (simp add: len_def data_counts_def)
  from a b c show ?thesis
    by (simp add: annotations)
qed

section \<open>Runs of the script\<close>

lemma exec_block_calls_ok:
  "\<forall>c \<in> set cs. ok c \<Longrightarrow> exec_block ok (map Call cs) = (cs, Completed)"
  by (induction cs) simp_all

lemma exec_block_calls_fail:
  "\<forall>x \<in> set pre. ok x \<Longrightarrow> \<not> ok c \<Longrightarrow>
     exec_block ok (map Call (pre @ c # post)) = (pre, Raised c)"
  by (induction pre) simp_all

lemma exec_block_calls_done: "fst (exec_block ok (map Call cs)) = takeWhile ok cs"
proof (induction cs)
  case Nil
  show ?case by simp
next
  case (Cons c cs)
  then show ?case
    by (cases "exec_block ok (map Call cs)") simp
qed

lemma exec_block_calls_completed:
  "snd (exec_block ok (map Call cs)) = Completed \<longleftrightarrow> (\<forall>c \<in> set cs. ok c)"
proof (induction cs)
  case Nil
  show ?case by simp
next
  case (Cons c cs)
  then show ?case
    by (cases "exec_block ok (map Call cs)") simp
qed

lemma calls_of_calls: "calls_of (map Call cs) = cs"
  by (induction cs) simp_all

lemma handler_free_calls: "handler_free (map Call cs)"
  by (simp add: handler_free_def list_all_iff)

text \<open>
  A handler changes the outcome: behind a \<open>try\<close> whose only call raises, the run goes
  on as if nothing had happened.
\<close>

lemma handler_catches: "\<not> ok c \<Longrightarrow> exec_block ok (Try [Call c] [] # ss) = exec_block ok ss"
  by (simp split: prod.splits)

text \<open>
  So the abort at the first failing call is not a property of every program: with a
  \<open>try\<close> around a failing save, the run completes.
\<close>

lemma handler_prevents_abort:
  "calls_of [Try [Call (Savefig ''x'')] []] = [] @ Savefig ''x'' # []
   \<and> exec_block (\<lambda>c. False) [Try [Call (Savefig ''x'')] []] = ([], Completed)
   \<and> exec_block (\<lambda>c. False) [Try [Call (Savefig ''x'')] []] \<noteq> ([], Raised (Savefig ''x''))"
  by simp

lemma files_saved_script:
  "files_saved script =
     [''basic-pareto.pdf'', ''basic-pareto.png'', ''basic-pareto-errorbar.gif'',
      ''basic-pareto-histo.gif'']"
  by (simp add: files_saved_def script_def import_stmts_def static_plots_def
      subplot_loop_counts kld_plot_calls save_plot_def animated_def name_def)

lemma files_written_script:
  "files_written py script =
     caches py (Import ''preprocessing'') @ caches py (Import ''pdfplot'')
     @ caches py (Import ''kldplot'')
     @ [''basic-pareto.pdf'', ''basic-pareto.png'', ''basic-pareto-errorbar.gif'',
        ''basic-pareto-histo.gif'']"
  by (simp add: files_written_def writes_def script_def import_stmts_def static_plots_def
      subplot_loop_counts kld_plot_calls save_plot_def animated_def name_def
      helper_modules_def)

lemma caches_subset: "set (caches py c) \<subseteq> bytecode_file py ` set helper_modules"
  by (cases c) auto

lemma files_written_subset:
  "set (files_written py script) \<subseteq>
     {''basic-pareto.pdf'', ''basic-pareto.png'', ''basic-pareto-errorbar.gif'',
      ''basic-pareto-histo.gif''} \<union> bytecode_file py ` set helper_modules"
  using caches_subset [of py "Import ''preprocessing''"]
    caches_subset [of py "Import ''pdfplot''"] caches_subset [of py "Import ''kldplot''"]
  unfolding files_written_script by auto

lemma files_written_mono:
  "set (files_written py (takeWhile ok cs)) \<subseteq> set (files_written py cs)"
  using set_takeWhileD [of _ ok cs] by (auto simp add: files_written_def)

text \<open>
  C3, as the spec states it: run on well-formed input files, the script completes and
  writes exactly the four artifacts, and no other file. This fails: in a run in which
  every call returns normally, under an interpreter with the default settings, the three
  imports of helper modules write their bytecode caches before the four artifacts are
  written.
\<close>

theorem only_four_files_counterexample:
  "snd (exec_block (\<lambda>c. True) program) = Completed
   \<and> files_written cpython (fst (exec_block (\<lambda>c. True) program)) =
       [''__pycache__/preprocessing.cpython-311.pyc'', ''__pycache__/pdfplot.cpython-311.pyc'',
        ''__pycache__/kldplot.cpython-311.pyc'', ''basic-pareto.pdf'', ''basic-pareto.png'',
        ''basic-pareto-errorbar.gif'', ''basic-pareto-histo.gif'']
   \<and> files_written cpython (fst (exec_block (\<lambda>c. True) program)) \<noteq>
       [''basic-pareto.pdf'', ''basic-pareto.png'', ''basic-pareto-errorbar.gif'',
        ''basic-pareto-histo.gif'']"
  by (simp add: program_def exec_block_calls_ok files_written_script helper_modules_def
      cpython_def bytecode_file_def)

text \<open>
  C3, amended: in every run, complete or aborted, each file written is one of the four
  artifacts \<open>basic-pareto.pdf\<close>, \<open>basic-pareto.png\<close>, \<open>basic-pareto-errorbar.gif\<close>,
  \<open>basic-pareto-histo.gif\<close> or the bytecode cache of one of the three helper modules.
  The script runs to its end exactly when none of its library calls raises, and whenever it
  does, its save calls have written exactly the four artifacts, in this order, each once.
\<close>

theorem script_files_written:
  "set (files_written py (fst (exec_block ok program))) \<subseteq>
     {''basic-pareto.pdf'', ''basic-pareto.png'', ''basic-pareto-errorbar.gif'',
      ''basic-pareto-histo.gif''} \<union> bytecode_file py ` set helper_modules
   \<and> (snd (exec_block ok program) = Completed \<longleftrightarrow> (\<forall>c \<in> set script. ok c))
   \<and> (snd (exec_block ok program) = Completed \<longrightarrow>
        files_saved (fst (exec_block ok program)) =
          [''basic-pareto.pdf'', ''basic-pareto.png'', ''basic-pareto-errorbar.gif'',
           ''basic-pareto-histo.gif''])"
proof (intro conjI impI)
  show "set (files_written py (fst (exec_block ok program))) \<subseteq>
     {''basic-pareto.pdf'', ''basic-pareto.png'', ''basic-pareto-errorbar.gif'',
      ''basic-pareto-histo.gif''} \<union> bytecode_file py ` set helper_modules"
    unfolding program_def exec_block_calls_done
    using files_written_mono [of py ok script] files_written_subset [of py] by blast
next
  show "snd (exec_block ok program) = Completed \<longleftrightarrow> (\<forall>c \<in> set script. ok c)"
    unfolding program_def by (rule exec_block_calls_completed)
next
  assume "snd (exec_block ok program) = Completed"
  then have "\<forall>c \<in> set script. ok c"
    by (simp add: program_def exec_block_calls_completed)
  then show "files_saved (fst (exec_block ok program)) =
      [''basic-pareto.pdf'', ''basic-pareto.png'', ''basic-pareto-errorbar.gif'',
       ''basic-pareto-histo.gif'']"
    by (simp add: program_def exec_block_calls_ok files_saved_script)
qed

theorem script_files_written_witness:
  "snd (exec_block (\<lambda>c. True) program) = Completed
   \<and> files_saved (fst (exec_block (\<lambda>c. True) program)) =
       [''basic-pareto.pdf'', ''basic-pareto.png'', ''basic-pareto-errorbar.gif'',
        ''basic-pareto-histo.gif'']"
  using script_files_written [of cpython "\<lambda>c. True"] by simp

text \<open>
  C4: the script installs no exception handler. Whichever of its calls is the first to
  raise (a file read, a plot call, a save, an import), the run ends there with that
  failure: the calls that returned are exactly the ones before it, and nothing after it
  is executed.
\<close>

theorem failure_aborts_script:
  "handler_free program
   \<and> (\<forall>ok pre c post.
        calls_of program = pre @ c # post \<and> (\<forall>x \<in> set pre. ok x) \<and> \<not> ok c \<longrightarrow>
        exec_block ok program = (pre, Raised c))"
proof (intro conjI allI impI)
  show "handler_free program"
    by (simp add: program_def handler_free_calls)
next
  fix ok pre c post
  assume a: "calls_of program = pre @ c # post \<and> (\<forall>x \<in> set pre. ok x) \<and> \<not> ok c"
  then have split: "script = pre @ c # post"
    by (simp add: program_def calls_of_calls)
  from a have "\<forall>x \<in> set pre. ok x" and "\<not> ok c"
    by blast+
  then have "exec_block ok (map Call (pre @ c # post)) = (pre, Raised c)"
    by (rule exec_block_calls_fail)
  with split show "exec_block ok program = (pre, Raised c)"
    by (simp add: program_def)
qed

theorem failure_aborts_script_witness:
  "exec_block (\<lambda>c. \<not> is_savefig c) program =
     (import_stmts @ static_plots @ kld_plot, Raised (Savefig ''basic-pareto.pdf''))"
proof -
  have s: "calls_of program = (import_stmts @ static_plots @ kld_plot)
      @ Savefig ''basic-pareto.pdf'' # (Savefig ''basic-pareto.png'' # animated)"
    unfolding program_def calls_of_calls
    by (simp add: script_def save_plot_def name_def)
  have p: "\<forall>x \<in> set (import_stmts @ static_plots @ kld_plot). \<not> is_savefig x"
    by (simp add: import_stmts_def static_plots_def subplot_loop_counts kld_plot_calls)
  have c: "\<not> \<not> is_savefig (Savefig ''basic-pareto.pdf'')"
    by simp
  from failure_aborts_script have
    "calls_of program = (import_stmts @ static_plots @ kld_plot)
        @ Savefig ''basic-pareto.pdf'' # (Savefig ''basic-pareto.png'' # animated)
      \<and> (\<forall>x \<in> set (import_stmts @ static_plots @ kld_plot). \<not> is_savefig x)
      \<and> \<not> \<not> is_savefig (Savefig ''basic-pareto.pdf'')
     \<longrightarrow> exec_block (\<lambda>c. \<not> is_savefig c) program =
       (import_stmts @ static_plots @ kld_plot, Raised (Savefig ''basic-pareto.pdf''))"
    by blast
  with s p c show ?thesis
    by blast
qed

end
